theory Spec2Isabelle
  imports Complex_Main "HOL-Library.Word"
begin

section \<open>Tensors\<close>

text \<open>
  Modelled from the spec: the tensor type and its operations are the framework's and
  are not part of the sources; the glossary calls a tensor a multi-dimensional numeric
  array. A tensor is a shape and the elements in row-major order. A tensor of dtype
  \<^verbatim>\<open>uint8\<close> (the images of the two datasets) holds \<open>8 word\<close> elements. For the
  preprocessing functions, the pipelines and the gradient cell a tensor of dtype
  \<^verbatim>\<open>float32\<close> is modelled with \<open>real\<close> elements, so rounding and overflow of the machine
  format are outside the model there; for the activation function it holds \<open>float32\<close>
  elements, with rounding and overflow.
\<close>

datatype 'a tensor = Tensor (shape: "nat list") (data: "'a list")

definition valid :: "'a tensor \<Rightarrow> bool" where
  "valid t = (length (data t) = prod_list (shape t))"

text \<open>
  Elementwise primitives used by the notebooks' own functions. \<open>map_tensor f\<close> applies
  \<open>f\<close> to every element and keeps the shape. In \<^verbatim>\<open>c * x\<close> and \<^verbatim>\<open>x / c\<close> for a Python
  number \<open>c\<close>, the number is broadcast to every element.
\<close>

definition scalar_mul :: "real \<Rightarrow> real tensor \<Rightarrow> real tensor" where
  "scalar_mul c x = map_tensor (\<lambda>v. c * v) x"

definition div_scalar :: "real tensor \<Rightarrow> real \<Rightarrow> real tensor" where
  "div_scalar x c = map_tensor (\<lambda>v. v / c) x"

text \<open>\<^verbatim>\<open>tf.cast(image, tf.float32)\<close> on a \<^verbatim>\<open>uint8\<close> tensor: every byte becomes the number it
  denotes.\<close>

type_synonym uint8 = "8 word"

definition tf_cast_float32 :: "uint8 tensor \<Rightarrow> real tensor" where
  "tf_cast_float32 x = map_tensor (\<lambda>w. real (unat w)) x"

section \<open>Preprocessing functions of the two dataset notebooks\<close>

text \<open>
  The training notebook (\<open>normalize\<close> and \<open>image\<close> are constants of HOL, so the function
  is \<open>normalize_image\<close> and its first argument \<open>img\<close>):
  \<^verbatim>\<open>
  def normalize(image, label):
      image = tf.cast(image, tf.float32)
      image /= 255
      return image, label
  \<close>
\<close>

definition normalize_image :: "uint8 tensor \<Rightarrow> 'l \<Rightarrow> real tensor \<times> 'l" where
  "normalize_image img label =
     (let img = tf_cast_float32 img;
          img = div_scalar img 255
      in (img, label))"

text \<open>
  The transfer-learning notebook:
  \<^verbatim>\<open>
  image_size = 224
  def format_image(image, label):
      image = tf.cast(image, tf.float32)
      image = tf.image.resize(image, (image_size, image_size))
      image /= 255
      return image, label
  \<close>
  \<^verbatim>\<open>tf.image.resize\<close> is the framework's interpolation routine; it is the parameter
  \<open>resize\<close> of the model.
\<close>

definition image_size :: nat where
  "image_size = 224"

definition format_image ::
  "(real tensor \<Rightarrow> nat \<times> nat \<Rightarrow> real tensor) \<Rightarrow> uint8 tensor \<Rightarrow> 'l \<Rightarrow> real tensor \<times> 'l" where
  "format_image resize img label =
     (let img = tf_cast_float32 img;
          img = resize img (image_size, image_size);
          img = div_scalar img 255
      in (img, label))"

text \<open>Nearest-neighbour enlargement of a one-pixel image: the pixel is repeated at every
  position of the target. It serves as a concrete \<open>resize\<close>.\<close>

definition resize_pixel :: "real tensor \<Rightarrow> nat \<times> nat \<Rightarrow> real tensor" where
  "resize_pixel t sz =
     Tensor [fst sz, snd sz, length (data t)] (concat (replicate (fst sz * snd sz) (data t)))"

section \<open>Single-precision arithmetic\<close>

text \<open>
  Modelled from the spec: the \<^verbatim>\<open>float32\<close> dtype and its arithmetic are the framework's and
  are not part of the sources. The tensors of the introductory notebook come from
  \<^verbatim>\<open>tf.random.normal\<close> and are \<^verbatim>\<open>float32\<close>: IEEE 754 binary32, with 24 significant bits, the
  least normal exponent -126, results rounded to the nearest value (ties to the even
  one) and results of magnitude \<open>2 ^ 128\<close> or more replaced by an infinity. Zero has no
  sign in the model.
\<close>

datatype float32 = Finite real | PosInf | NegInf | NaN

definition exponent :: "real \<Rightarrow> int" where
  "exponent r = max \<lfloor>log 2 \<bar>r\<bar>\<rfloor> (- 126)"

text \<open>The spacing of the \<^verbatim>\<open>float32\<close> values around \<open>r\<close>.\<close>

definition quantum :: "real \<Rightarrow> real" where
  "quantum r = 2 powr (of_int (exponent r) - 23)"

definition nearest_even :: "real \<Rightarrow> int" where
  "nearest_even t =
     (let n = \<lfloor>t\<rfloor>; f = t - of_int n
      in if f < 1 / 2 then n else if 1 / 2 < f then n + 1 else if even n then n else n + 1)"

definition rounded :: "real \<Rightarrow> real" where
  "rounded r = quantum r * of_int (nearest_even (r / quantum r))"

definition round32 :: "real \<Rightarrow> float32" where
  "round32 r =
     (if r = 0 then Finite 0
      else if 2 ^ 128 \<le> \<bar>rounded r\<bar> then (if 0 < r then PosInf else NegInf)
      else Finite (rounded r))"

text \<open>Negation, addition and division of two \<^verbatim>\<open>float32\<close> values.\<close>

fun neg32 :: "float32 \<Rightarrow> float32" where
  "neg32 (Finite r) = Finite (- r)"
| "neg32 PosInf = NegInf"
| "neg32 NegInf = PosInf"
| "neg32 NaN = NaN"

fun add32 :: "float32 \<Rightarrow> float32 \<Rightarrow> float32" where
  "add32 (Finite a) (Finite b) = round32 (a + b)"
| "add32 NaN y = NaN"
| "add32 x NaN = NaN"
| "add32 PosInf NegInf = NaN"
| "add32 NegInf PosInf = NaN"
| "add32 PosInf y = PosInf"
| "add32 x PosInf = PosInf"
| "add32 NegInf y = NegInf"
| "add32 x NegInf = NegInf"

fun div32 :: "float32 \<Rightarrow> float32 \<Rightarrow> float32" where
  "div32 (Finite a) (Finite b) =
     (if b = 0 then (if a = 0 then NaN else if 0 < a then PosInf else NegInf)
      else round32 (a / b))"
| "div32 NaN y = NaN"
| "div32 x NaN = NaN"
| "div32 (Finite a) y = Finite 0"
| "div32 PosInf (Finite b) = (if 0 \<le> b then PosInf else NegInf)"
| "div32 NegInf (Finite b) = (if 0 \<le> b then NegInf else PosInf)"
| "div32 x y = NaN"

text \<open>The order of the \<^verbatim>\<open>float32\<close> values; \<^verbatim>\<open>NaN\<close> compares with nothing.\<close>

fun le32 :: "float32 \<Rightarrow> float32 \<Rightarrow> bool" where
  "le32 (Finite a) (Finite b) = (a \<le> b)"
| "le32 NaN y = False"
| "le32 x NaN = False"
| "le32 NegInf y = True"
| "le32 x PosInf = True"
| "le32 x y = False"

text \<open>The correctly rounded exponential. It serves as a concrete \<open>fexp\<close>.\<close>

definition exp_nearest :: "float32 \<Rightarrow> float32" where
  "exp_nearest x =
     (case x of Finite r \<Rightarrow> round32 (exp r) | PosInf \<Rightarrow> PosInf | NegInf \<Rightarrow> Finite 0 | NaN \<Rightarrow> NaN)"

section \<open>The activation function of the introductory notebook\<close>

text \<open>
  \<^verbatim>\<open>
  def sigmoid_activation(x):
      return 1/(1+tf.exp(-x))
  \<close>
  on a \<^verbatim>\<open>float32\<close> tensor. \<^verbatim>\<open>-x\<close>, \<^verbatim>\<open>1 + t\<close> and \<^verbatim>\<open>1 / t\<close> act on every element, the Python
  number 1 being converted to \<^verbatim>\<open>float32\<close>. \<^verbatim>\<open>tf.exp\<close> is the framework's routine; its
  value at an element is the parameter \<open>fexp\<close>.
\<close>

definition tf_negative :: "float32 tensor \<Rightarrow> float32 tensor" where
  "tf_negative x = map_tensor neg32 x"

definition tf_exp :: "(float32 \<Rightarrow> float32) \<Rightarrow> float32 tensor \<Rightarrow> float32 tensor" where
  "tf_exp fexp x = map_tensor fexp x"

definition scalar_add :: "real \<Rightarrow> float32 tensor \<Rightarrow> float32 tensor" where
  "scalar_add c x = map_tensor (add32 (round32 c)) x"

definition scalar_rdiv :: "real \<Rightarrow> float32 tensor \<Rightarrow> float32 tensor" where
  "scalar_rdiv c x = map_tensor (div32 (round32 c)) x"

definition sigmoid_activation :: "(float32 \<Rightarrow> float32) \<Rightarrow> float32 tensor \<Rightarrow> float32 tensor" where
  "sigmoid_activation fexp x = scalar_rdiv 1 (scalar_add 1 (tf_exp fexp (tf_negative x)))"

text \<open>What an exponential returns: a value that is not negative, or \<open>+inf\<close>.\<close>

fun exp_value :: "float32 \<Rightarrow> bool" where
  "exp_value (Finite y) = (0 \<le> y)"
| "exp_value PosInf = True"
| "exp_value v = False"

fun in_unit_interval :: "float32 \<Rightarrow> bool" where
  "in_unit_interval (Finite s) = (0 \<le> s \<and> s \<le> 1)"
| "in_unit_interval v = False"

fun finite_le :: "float32 \<Rightarrow> float32 \<Rightarrow> bool" where
  "finite_le (Finite a) (Finite b) = (a \<le> b)"
| "finite_le u v = False"

fun is_finite :: "float32 \<Rightarrow> bool" where
  "is_finite (Finite r) = True"
| "is_finite v = False"

section \<open>Framework errors\<close>

text \<open>An exception raised by the framework is a value: the notebooks define no error
  type of their own.\<close>

datatype reason =
    IncompatibleShapes "nat list" "nat list"
  | CannotBatch "nat list" "nat list"
  | BatchSizeNotPositive

datatype error = InvalidArgumentError reason | NameError string | TypeError | ValueError

section \<open>Dataset pipelines\<close>

text \<open>
  Modelled from the spec: the dataset API (\<^verbatim>\<open>map\<close>, \<^verbatim>\<open>batch\<close>, \<^verbatim>\<open>cache\<close>, \<^verbatim>\<open>shuffle\<close>,
  \<^verbatim>\<open>prefetch\<close>) is the framework's and is not part of the sources, which make single
  calls into it.
  A dataset of \<^verbatim>\<open>(image, label)\<close> elements is the list of its elements in iteration
  order. \<^verbatim>\<open>map\<close> applies a function of two arguments to every element. \<^verbatim>\<open>batch\<close> cuts the
  dataset into consecutive groups of \<^verbatim>\<open>batch_size\<close> elements (the last one may be
  shorter) and stacks the images of a group, and its labels, along a new first axis;
  stacking tensors of different shapes is an error, and so is a batch size of 0. A
  group is never empty. A pipeline is evaluated as a whole: it yields its batches or
  the first error.
\<close>

definition ds_map :: "('a \<Rightarrow> 'b \<Rightarrow> 'c \<times> 'd) \<Rightarrow> ('a \<times> 'b) list \<Rightarrow> ('c \<times> 'd) list" where
  "ds_map f ds = map (\<lambda>(x, y). f x y) ds"

function chunks :: "nat \<Rightarrow> 'a list \<Rightarrow> 'a list list" where
  "chunks n xs = (if n = 0 \<or> xs = [] then [] else take n xs # chunks n (drop n xs))"
  by pat_completeness auto
termination
  by (relation "measure (\<lambda>(n, xs). length xs)") auto

declare chunks.simps [simp del]

definition stack_batch :: "'a tensor list \<Rightarrow> error + 'a tensor" where
  "stack_batch ts =
     (case ts of
        [] \<Rightarrow> Inr (Tensor [0] [])
      | t # _ \<Rightarrow>
          (case find (\<lambda>u. shape u \<noteq> shape t) ts of
             Some u \<Rightarrow> Inl (InvalidArgumentError (CannotBatch (shape t) (shape u)))
           | None \<Rightarrow> Inr (Tensor (length ts # shape t) (concat (map data ts)))))"

definition batch_elements :: "('a tensor \<times> 'l tensor) list \<Rightarrow> error + ('a tensor \<times> 'l tensor)" where
  "batch_elements es =
     (case stack_batch (map fst es) of
        Inl e \<Rightarrow> Inl e
      | Inr images \<Rightarrow>
          (case stack_batch (map snd es) of
             Inl e \<Rightarrow> Inl e
           | Inr labels \<Rightarrow> Inr (images, labels)))"

fun collect :: "(error + 'a) list \<Rightarrow> error + 'a list" where
  "collect [] = Inr []"
| "collect (r # rs) =
     (case r of
        Inl e \<Rightarrow> Inl e
      | Inr x \<Rightarrow> (case collect rs of Inl e \<Rightarrow> Inl e | Inr xs \<Rightarrow> Inr (x # xs)))"

definition ds_batch ::
  "nat \<Rightarrow> ('a tensor \<times> 'l tensor) list \<Rightarrow> error + ('a tensor \<times> 'l tensor) list" where
  "ds_batch batch_size ds =
     (if batch_size = 0 then Inl (InvalidArgumentError BatchSizeNotPositive)
      else collect (map batch_elements (chunks batch_size ds)))"


definition ds_prefetch :: "nat \<Rightarrow> 'a list \<Rightarrow> 'a list" where
  "ds_prefetch buffer_size ds = ds"


definition training_batches_transfer ::
  "(real tensor \<Rightarrow> nat \<times> nat \<Rightarrow> real tensor)
   \<Rightarrow> (nat \<Rightarrow> (uint8 tensor \<times> 'l tensor) list \<Rightarrow> (uint8 tensor \<times> 'l tensor) list)
   \<Rightarrow> nat \<Rightarrow> (uint8 tensor \<times> 'l tensor) list \<Rightarrow> error + (real tensor \<times> 'l tensor) list" where
  "training_batches_transfer resize shuffle num_training_examples training_set =
     map_sum id (ds_prefetch 1)
       (ds_batch 32
          (ds_map (format_image resize) (shuffle (num_training_examples div 4) training_set)))"

section \<open>Binary operations with broadcasting\<close>

text \<open>
  Modelled from the spec: the arithmetic on two tensors is the framework's and is not
  part of the sources.
  \<^verbatim>\<open>tf.add\<close>, \<^verbatim>\<open>tf.multiply\<close> and \<^verbatim>\<open>tf.subtract\<close> (the operators \<^verbatim>\<open>+\<close>, \<^verbatim>\<open>*\<close>, \<^verbatim>\<open>-\<close> on tensors)
  align the two shapes at their last axis; two extents are compatible when they are
  equal or one of them is 1, and an axis of extent 1 is repeated.
\<close>

fun broadcast_rev :: "nat list \<Rightarrow> nat list \<Rightarrow> nat list option" where
  "broadcast_rev [] ys = Some ys"
| "broadcast_rev xs [] = Some xs"
| "broadcast_rev (x # xs) (y # ys) =
     (if x = y \<or> y = 1 then map_option ((#) x) (broadcast_rev xs ys)
      else if x = 1 then map_option ((#) y) (broadcast_rev xs ys)
      else None)"

definition broadcast_shape :: "nat list \<Rightarrow> nat list \<Rightarrow> nat list option" where
  "broadcast_shape a b = map_option rev (broadcast_rev (rev a) (rev b))"

fun expand :: "nat list \<Rightarrow> nat list \<Rightarrow> 'a list \<Rightarrow> 'a list" where
  "expand (s # ss) (t # ts) xs =
     (if s = t then concat (map (expand ss ts) (chunks (prod_list ss) xs))
      else concat (replicate t (expand ss ts xs)))"
| "expand _ _ xs = xs"

definition broadcast_to :: "nat list \<Rightarrow> 'a tensor \<Rightarrow> 'a list" where
  "broadcast_to target x =
     expand (replicate (length target - length (shape x)) 1 @ shape x) target (data x)"

definition broadcast_binop ::
  "(real \<Rightarrow> real \<Rightarrow> real) \<Rightarrow> real tensor \<Rightarrow> real tensor \<Rightarrow> error + real tensor" where
  "broadcast_binop f a b =
     (case broadcast_shape (shape a) (shape b) of
        None \<Rightarrow> Inl (InvalidArgumentError (IncompatibleShapes (shape a) (shape b)))
      | Some s \<Rightarrow> Inr (Tensor s (map2 f (broadcast_to s a) (broadcast_to s b))))"

definition tf_add :: "real tensor \<Rightarrow> real tensor \<Rightarrow> error + real tensor" where
  "tf_add = broadcast_binop (+)"

definition tf_multiply :: "real tensor \<Rightarrow> real tensor \<Rightarrow> error + real tensor" where
  "tf_multiply = broadcast_binop (*)"

definition tf_subtract :: "real tensor \<Rightarrow> real tensor \<Rightarrow> error + real tensor" where
  "tf_subtract = broadcast_binop (-)"

section \<open>The variables of a notebook\<close>

text \<open>
  The notebook's variables are a store from names to tensors. A cell reads the names
  it mentions in evaluation order (an unbound name is a \<^verbatim>\<open>NameError\<close>), and an assignment
  binds its target once the right-hand side has been computed. An error of a call is
  the result of the cell.
\<close>

definition and_then :: "error + 'a \<Rightarrow> ('a \<Rightarrow> error + 'b) \<Rightarrow> error + 'b" where
  "and_then r f = (case r of Inl e \<Rightarrow> Inl e | Inr x \<Rightarrow> f x)"

type_synonym env = "string \<rightharpoonup> real tensor"

definition lookup :: "env \<Rightarrow> string \<Rightarrow> error + real tensor" where
  "lookup env name = (case env name of None \<Rightarrow> Inl (NameError name) | Some t \<Rightarrow> Inr t)"

section \<open>Automatic differentiation in the training notebook\<close>

text \<open>
  Modelled from the spec: \<^verbatim>\<open>tf.GradientTape\<close> is the framework's class and is not part of
  the sources; the model follows the training notebook's account of it. The tape keeps
  track of the operations performed on tensors that are being watched, it knows how to
  calculate the gradient of each operation, and \<^verbatim>\<open>gradient\<close> walks the chain of recorded
  operations back from the target, multiplying the incoming gradient with the gradient
  of the operation. Tensors are identified by the names that hold them; every name of
  the cell is assigned once. The only operation the cell records is \<^verbatim>\<open>x ** n\<close>.
\<close>

datatype op = PowOp nat

record gradient_tape =
  watched :: "string list"
  recorded :: "(op \<times> string \<times> string) list"

definition new_tape :: gradient_tape where
  "new_tape = \<lparr>watched = [], recorded = []\<rparr>"

definition watch :: "gradient_tape \<Rightarrow> string \<Rightarrow> gradient_tape" where
  "watch g name = g\<lparr>watched := name # watched g\<rparr>"

definition traced :: "gradient_tape \<Rightarrow> string \<Rightarrow> bool" where
  "traced g name =
     (name \<in> set (watched g) \<or> name \<in> set (map (\<lambda>(f, source, target). target) (recorded g)))"

fun apply_op :: "op \<Rightarrow> real tensor \<Rightarrow> real tensor" where
  "apply_op (PowOp n) x = map_tensor (\<lambda>v. v ^ n) x"

text \<open>The gradient of \<^verbatim>\<open>x ** n\<close>: the incoming gradient times \<open>n * x ** (n - 1)\<close>
  (for \<open>n = 2\<close> the notebook's \<open>dy/dx = 2x\<close>).\<close>

fun op_gradient :: "op \<Rightarrow> real tensor \<Rightarrow> real tensor \<Rightarrow> error + real tensor" where
  "op_gradient (PowOp n) x upstream =
     tf_multiply upstream (scalar_mul (real n) (map_tensor (\<lambda>v. v ^ (n - 1)) x))"

text \<open>\<^verbatim>\<open>target = source ** n\<close> inside the \<^verbatim>\<open>with\<close> block: the result is bound, and the
  operation is recorded when its operand is traced.\<close>

definition pow_statement ::
  "string \<Rightarrow> string \<Rightarrow> nat \<Rightarrow> gradient_tape \<times> env \<Rightarrow> error + gradient_tape \<times> env" where
  "pow_statement target source n = (\<lambda>(g, env).
     and_then (lookup env source) (\<lambda>x.
     Inr (if traced g source then g\<lparr>recorded := recorded g @ [(PowOp n, source, target)]\<rparr> else g,
          env(target \<mapsto> apply_op (PowOp n) x))))"

definition ones_like :: "real tensor \<Rightarrow> real tensor" where
  "ones_like x = map_tensor (\<lambda>v. 1) x"

text \<open>One step of the backward pass: an operation whose result has a gradient passes
  it on to its operand, where gradients of several uses add up.\<close>

definition backward_step ::
  "env \<Rightarrow> op \<times> string \<times> string \<Rightarrow> env \<Rightarrow> error + env" where
  "backward_step env = (\<lambda>(f, source, target) grads.
     (case grads target of
        None \<Rightarrow> Inr grads
      | Some upstream \<Rightarrow>
          and_then (lookup env source) (\<lambda>x.
          and_then (op_gradient f x upstream) (\<lambda>d.
          (case grads source of
             None \<Rightarrow> Inr (grads(source \<mapsto> d))
           | Some earlier \<Rightarrow>
               and_then (tf_add earlier d) (\<lambda>total. Inr (grads(source \<mapsto> total))))))))"

fun backward :: "env \<Rightarrow> (op \<times> string \<times> string) list \<Rightarrow> env \<Rightarrow> error + env" where
  "backward env [] grads = Inr grads"
| "backward env (r # rs) grads = and_then (backward_step env r grads) (backward env rs)"

text \<open>\<^verbatim>\<open>g.gradient(target, source)\<close>: \<open>None\<close> when the source is not connected to the
  target.\<close>

definition gradient :: "gradient_tape \<Rightarrow> env \<Rightarrow> string \<Rightarrow> string \<Rightarrow> error + real tensor option" where
  "gradient g env target source =
     and_then (lookup env target) (\<lambda>y.
     and_then (backward env (rev (recorded g)) [target \<mapsto> ones_like y]) (\<lambda>grads.
     Inr (grads source)))"

text \<open>\<^verbatim>\<open>np.abs(t).max()\<close>; the maximum of no elements is a \<^verbatim>\<open>ValueError\<close>.\<close>

definition max_abs :: "real tensor \<Rightarrow> error + real" where
  "max_abs t = (case data t of [] \<Rightarrow> Inl ValueError | v # vs \<Rightarrow> Inr (fold max (map abs vs) \<bar>v\<bar>))"

text \<open>
  The cell of the training notebook, on a store that binds \<^verbatim>\<open>x\<close>:
  \<^verbatim>\<open>
  with tf.GradientTape() as g:
      g.watch(x)
      y = x ** 2
  dy_dx = g.gradient(y, x)
  true_grad = 2 * x
  print('\nMaximum Difference:', np.abs(true_grad - dy_dx).max())
  \<close>
  Its result is what it prints: the computed gradient, the true gradient and the
  maximum difference.
\<close>

definition gradient_cell :: "env \<Rightarrow> error + real tensor \<times> real tensor \<times> real" where
  "gradient_cell env =
     and_then (pow_statement ''y'' ''x'' 2 (watch new_tape ''x'', env)) (\<lambda>(g, env).
     and_then (gradient g env ''y'' ''x'') (\<lambda>dy_dx.
     and_then (lookup env ''x'') (\<lambda>x.
     (let true_grad = scalar_mul 2 x in
      (case dy_dx of
         None \<Rightarrow> Inl TypeError
       | Some dy_dx \<Rightarrow>
           and_then (tf_subtract true_grad dy_dx) (\<lambda>difference.
           and_then (max_abs difference) (\<lambda>maximum.
           Inr (dy_dx, true_grad, maximum))))))))"

section \<open>The order of the calls on a model\<close>

text \<open>
  The calls a notebook makes on its \<^verbatim>\<open>model\<close>, cell by cell from top to bottom; a
  \<^verbatim>\<open>for\<close> loop over \<^verbatim>\<open>take(1)\<close> makes its call once. Cells that do not mention the
  model are left out, and a solution cell left blank makes no call.
\<close>

datatype call = Sequential | Summary | Compile | Fit | Evaluate | Predict

text \<open>The training notebook: the model is built, compiled, evaluated on one batch
  ("Loss before training"), fitted, asked for predictions, evaluated again ("Loss after
  training"); three blank solution cells follow.\<close>

definition training_notebook :: "call list list" where
  "training_notebook =
     [[Sequential], [Compile], [Evaluate], [Fit], [Predict], [Evaluate], [], [], []]"

text \<open>The transfer-learning notebook: the model is built and summarised, the training
  cell is a blank solution cell, and the last cell asks for predictions.\<close>

definition transfer_notebook :: "call list list" where
  "transfer_notebook = [[Sequential, Summary], [], [Predict]]"

definition model_calls :: "call list list \<Rightarrow> call list" where
  "model_calls cells = concat cells"

text \<open>The order as the specification words it: construction, then compile, then fit,
  then evaluate, then predict; and no evaluate ahead of the fit.\<close>

fun specified_rank :: "call \<Rightarrow> nat option" where
  "specified_rank Sequential = Some 0"
| "specified_rank Compile = Some 1"
| "specified_rank Fit = Some 2"
| "specified_rank Evaluate = Some 3"
| "specified_rank Predict = Some 4"
| "specified_rank Summary = None"

definition in_specified_order :: "call list \<Rightarrow> bool" where
  "in_specified_order calls = sorted (List.map_filter specified_rank calls)"

definition evaluate_before_fit :: "call list \<Rightarrow> bool" where
  "evaluate_before_fit calls =
     (Fit \<in> set calls \<and> Evaluate \<in> set (takeWhile (\<lambda>c. c \<noteq> Fit) calls))"

text \<open>The order the notebooks keep: the model is constructed first, and nothing but
  construction and summary comes ahead of compile.\<close>

definition constructed_first :: "call list \<Rightarrow> bool" where
  "constructed_first calls = (take 1 calls = [Sequential])"

definition compiled_before_use :: "call list \<Rightarrow> bool" where
  "compiled_before_use calls =
     (Compile \<in> set calls
      \<and> list_all (\<lambda>c. c = Sequential \<or> c = Summary) (takeWhile (\<lambda>c. c \<noteq> Compile) calls))"

definition evaluate_after_fit :: "call list \<Rightarrow> bool" where
  "evaluate_after_fit calls = (Evaluate \<in> set (dropWhile (\<lambda>c. c \<noteq> Fit) calls))"

section \<open>Properties of the preprocessing functions\<close>

lemma cast_pixel_range: "list_all (\<lambda>p. 0 \<le> p \<and> p \<le> 255) (data (tf_cast_float32 img))"
proof -
  have "unat w \<le> 255" for w :: uint8
    using unsigned_less [of w, where ?'a = nat] by simp
  then have "0 \<le> real (unat w) \<and> real (unat w) \<le> 255" for w :: uint8
    by (metis of_nat_0_le_iff of_nat_le_iff of_nat_numeral)
  then show ?thesis
    by (simp add: tf_cast_float32_def tensor.map_sel list_all_iff)
qed

lemma div_scalar_unit_range:
  assumes "list_all (\<lambda>p. 0 \<le> p \<and> p \<le> 255) (data t)"
  shows "list_all (\<lambda>p. 0 \<le> p \<and> p \<le> 1) (data (div_scalar t 255))"
  using assms by (simp add: div_scalar_def tensor.map_sel list_all_iff)

text \<open>
  Claim C1. For every \<^verbatim>\<open>uint8\<close> image (pixel values 0 to 255) and every label,
  \<open>normalize_image\<close> returns the image cast to a float tensor of the same shape with every
  pixel divided by 255, so every output pixel lies in \<open>[0, 1]\<close>, and returns the label
  unchanged. \<open>format_image\<close> returns the cast image, resized, with every pixel divided
  by 255, and the label unchanged; when the framework's resize yields shape
  \<open>(224, 224, 3)\<close> and keeps the pixels of this image within \<open>[0, 255]\<close>, the output has
  shape \<open>(224, 224, 3)\<close> and pixels in \<open>[0, 1]\<close>.
\<close>

theorem preprocessing_scales_pixels_keeps_label:
  assumes resized_shape:
      "shape (resize (tf_cast_float32 img) (224, 224)) = [224, 224, 3]"
    and resized_range:
      "list_all (\<lambda>p. 0 \<le> p \<and> p \<le> 255) (data (tf_cast_float32 img))
       \<Longrightarrow> list_all (\<lambda>p. 0 \<le> p \<and> p \<le> 255) (data (resize (tf_cast_float32 img) (224, 224)))"
  shows "normalize_image img label =
           (Tensor (shape img) (map (\<lambda>w. real (unat w) / 255) (data img)), label)
       \<and> list_all (\<lambda>p. 0 \<le> p \<and> p \<le> 1) (data (fst (normalize_image img label)))
       \<and> format_image resize img label =
           (map_tensor (\<lambda>v. v / 255) (resize (tf_cast_float32 img) (224, 224)), label)
       \<and> shape (fst (format_image resize img label)) = [224, 224, 3]
       \<and> list_all (\<lambda>p. 0 \<le> p \<and> p \<le> 1) (data (fst (format_image resize img label)))"
proof -
  have n_eq: "normalize_image img label =
      (Tensor (shape img) (map (\<lambda>w. real (unat w) / 255) (data img)), label)"
    by (cases img) (simp add: normalize_image_def tf_cast_float32_def div_scalar_def)
  have n_range: "list_all (\<lambda>p. 0 \<le> p \<and> p \<le> 1) (data (fst (normalize_image img label)))"
    using div_scalar_unit_range [OF cast_pixel_range [of img]]
    by (simp add: normalize_image_def)
  have f_eq: "format_image resize img label =
      (map_tensor (\<lambda>v. v / 255) (resize (tf_cast_float32 img) (224, 224)), label)"
    by (simp add: format_image_def image_size_def div_scalar_def)
  have f_shape: "shape (fst (format_image resize img label)) = [224, 224, 3]"
    using resized_shape by (simp add: f_eq tensor.map_sel)
  have f_range: "list_all (\<lambda>p. 0 \<le> p \<and> p \<le> 1) (data (fst (format_image resize img label)))"
    using div_scalar_unit_range [OF resized_range [OF cast_pixel_range]]
    by (simp add: f_eq div_scalar_def)
  show ?thesis
    using n_eq n_range f_eq f_shape f_range by blast
qed

lemma list_all_concat_replicate:
  "list_all P xs \<Longrightarrow> list_all P (concat (replicate n xs))"
  by (induction n) simp_all

theorem preprocessing_scales_pixels_keeps_label_witness:
  "normalize_image (Tensor [1, 1, 3] [0, 128, 255]) (1::int) = (Tensor [1, 1, 3] [0, 128 / 255, 1], 1)
   \<and> shape (fst (format_image resize_pixel (Tensor [1, 1, 3] [0, 128, 255]) (1::int))) = [224, 224, 3]
   \<and> list_all (\<lambda>p. 0 \<le> p \<and> p \<le> 1)
        (data (fst (format_image resize_pixel (Tensor [1, 1, 3] [0, 128, 255]) (1::int))))"
proof -
  let ?img = "Tensor [1, 1, 3] [0, 128, 255] :: uint8 tensor"
  have h1: "shape (resize_pixel (tf_cast_float32 ?img) (224, 224)) = [224, 224, 3]"
    by (simp add: resize_pixel_def tf_cast_float32_def)
  have h2: "list_all (\<lambda>p. 0 \<le> p \<and> p \<le> 255) (data (resize_pixel (tf_cast_float32 ?img) (224, 224)))"
    if "list_all (\<lambda>p. 0 \<le> p \<and> p \<le> 255) (data (tf_cast_float32 ?img))"
    using that by (simp add: resize_pixel_def list_all_concat_replicate)
  note t = preprocessing_scales_pixels_keeps_label [of resize_pixel ?img "1::int", OF h1 h2]
  have c1: "normalize_image ?img (1::int) = (Tensor [1, 1, 3] [0, 128 / 255, 1], 1)"
    using t by simp
  have c2: "shape (fst (format_image resize_pixel ?img (1::int))) = [224, 224, 3]"
    using t by blast
  have c3: "list_all (\<lambda>p. 0 \<le> p \<and> p \<le> 1) (data (fst (format_image resize_pixel ?img (1::int))))"
    using t by blast
  show ?thesis
    using c1 c2 c3 by blast
qed










section \<open>Properties of broadcasting\<close>

lemma chunks_nonempty: "0 < n \<Longrightarrow> xs \<noteq> [] \<Longrightarrow> chunks n xs = take n xs # chunks n (drop n xs)"
  by (subst chunks.simps) simp

lemma chunks_Nil [simp]: "chunks n [] = []"
  by (subst chunks.simps) simp

lemma chunks_zero [simp]: "chunks 0 xs = []"
  by (subst chunks.simps) simp

lemma concat_chunks: "0 < n \<Longrightarrow> concat (chunks n xs) = xs"
proof (induction n xs rule: chunks.induct)
  case (1 n xs)
  show ?case
  proof (cases "xs = []")
    case True
    then show ?thesis by simp
  next
    case False
    with 1 show ?thesis by (simp add: chunks_nonempty)
  qed
qed

lemma length_chunks:
  "0 < n \<Longrightarrow> length xs = m * n \<Longrightarrow> c \<in> set (chunks n xs) \<Longrightarrow> length c = n"
proof (induction m arbitrary: xs)
  case 0
  then show ?case by simp
next
  case (Suc m)
  then have ne: "xs \<noteq> []" by auto
  have d: "length (drop n xs) = m * n" using Suc.prems by simp
  have "c = take n xs \<or> c \<in> set (chunks n (drop n xs))"
    using Suc.prems ne by (simp add: chunks_nonempty)
  then show ?case
  proof
    assume "c = take n xs"
    then show ?thesis using Suc.prems by simp
  next
    assume "c \<in> set (chunks n (drop n xs))"
    then show ?thesis using Suc.IH [OF Suc.prems(1) d] by simp
  qed
qed

lemma expand_same: "length xs = prod_list s \<Longrightarrow> expand s s xs = xs"
proof (induction s arbitrary: xs)
  case Nil
  then show ?case by simp
next
  case (Cons a s)
  show ?case
  proof (cases "prod_list s = 0")
    case True
    with Cons.prems show ?thesis by simp
  next
    case False
    have "expand s s c = c" if "c \<in> set (chunks (prod_list s) xs)" for c
      using that False Cons.prems length_chunks [of "prod_list s" xs a c]
      by (intro Cons.IH) simp
    then have "map (expand s s) (chunks (prod_list s) xs) = chunks (prod_list s) xs"
      by (simp add: map_idI)
    with False show ?thesis by (simp add: concat_chunks)
  qed
qed

lemma broadcast_shape_same: "broadcast_shape s s = Some s"
proof -
  have "broadcast_rev r r = Some r" for r :: "nat list"
    by (induction r) simp_all
  then show ?thesis by (simp add: broadcast_shape_def)
qed

lemma and_then_Inr [simp]: "and_then (Inr x) f = f x"
  by (simp add: and_then_def)

lemma and_then_Inl [simp]: "and_then (Inl e) f = Inl e"
  by (simp add: and_then_def)

lemma lookup_Some [simp]: "env name = Some t \<Longrightarrow> lookup env name = Inr t"
  by (simp add: lookup_def)

section \<open>Properties of the gradient tape\<close>

lemma binop_same_shape:
  assumes "valid a" "valid b" "shape a = shape b"
  shows "broadcast_binop f a b = Inr (Tensor (shape a) (map2 f (data a) (data b)))"
proof -
  have "broadcast_to (shape a) a = data a" "broadcast_to (shape a) b = data b"
    using assms by (simp_all add: broadcast_to_def expand_same valid_def)
  then show ?thesis
    using assms by (simp add: broadcast_binop_def broadcast_shape_same)
qed

lemma map2_same: "map2 f (map g xs) (map h xs) = map (\<lambda>v. f (g v) (h v)) xs"
  by (induction xs) simp_all

lemma fold_max_zero: "fold max (map abs (map (\<lambda>v. 0::real) vs)) 0 = 0"
  by (induction vs) simp_all

text \<open>
  Claim C4. For a watched tensor \<open>x\<close> of shape \<open>(2, 2)\<close>, the gradient of
  \<open>y = x ** 2\<close> with respect to \<open>x\<close> that the tape computes equals \<open>2 * x\<close> at every
  element, the same tensor as the true gradient of the cell, so the maximum absolute
  difference the cell prints is 0.
\<close>

theorem gradient_tape_square_matches_true_gradient:
  assumes bound: "env ''x'' = Some x"
    and shaped: "shape x = [2, 2]"
    and wf: "valid x"
  shows "gradient_cell env = Inr (scalar_mul 2 x, scalar_mul 2 x, 0)
       \<and> data (scalar_mul 2 x) = map (\<lambda>v. 2 * v) (data x)"
proof -
  let ?g = "\<lparr>watched = [''x''], recorded = [(PowOp 2, ''x'', ''y'')]\<rparr>"
  let ?y = "map_tensor (\<lambda>v. v ^ 2) x"
  let ?env = "env(''y'' \<mapsto> ?y)"
  have ne: "data x \<noteq> []"
    using wf shaped by (auto simp: valid_def)
  have stmt: "pow_statement ''y'' ''x'' 2 (watch new_tape ''x'', env) = Inr (?g, ?env)"
    using bound by (simp add: pow_statement_def watch_def new_tape_def traced_def)
  have x_env: "lookup ?env ''x'' = Inr x" and y_env: "lookup ?env ''y'' = Inr ?y"
    using bound by (simp_all add: lookup_def)
  have chain: "op_gradient (PowOp 2) x (ones_like ?y) = Inr (scalar_mul 2 x)"
  proof -
    have "tf_multiply (ones_like ?y) (scalar_mul 2 (map_tensor (\<lambda>v. v ^ 1) x))
        = Inr (Tensor (shape x) (map (\<lambda>v. 1 * (2 * v ^ 1)) (data x)))"
      unfolding tf_multiply_def
      using wf
      by (subst binop_same_shape)
         (simp_all add: valid_def ones_like_def scalar_mul_def tensor.map_sel map2_same)
    moreover have "Tensor (shape x) (map (\<lambda>v. 1 * (2 * v ^ 1)) (data x)) = scalar_mul 2 x"
      by (cases x) (simp add: scalar_mul_def)
    ultimately show ?thesis by simp
  qed
  have backprop: "backward ?env [(PowOp 2, ''x'', ''y'')] [''y'' \<mapsto> ones_like ?y]
      = Inr ([''y'' \<mapsto> ones_like ?y, ''x'' \<mapsto> scalar_mul 2 x])"
    by (simp add: backward_step_def x_env chain del: op_gradient.simps)
  have grad: "gradient ?g ?env ''y'' ''x'' = Inr (Some (scalar_mul 2 x))"
    by (simp add: gradient_def y_env backprop del: backward.simps)
  have diff: "tf_subtract (scalar_mul 2 x) (scalar_mul 2 x)
      = Inr (Tensor (shape x) (map (\<lambda>v. 0) (data x)))"
    unfolding tf_subtract_def
    using wf
    by (subst binop_same_shape)
       (simp_all add: valid_def scalar_mul_def tensor.map_sel map2_same)
  have maxi: "max_abs (Tensor (shape x) (map (\<lambda>v. 0) (data x))) = Inr 0"
    using ne fold_max_zero by (cases "data x") (simp_all add: max_abs_def)
  have cell: "gradient_cell env = Inr (scalar_mul 2 x, scalar_mul 2 x, 0)"
    by (simp add: gradient_cell_def stmt grad x_env diff maxi Let_def)
  show ?thesis
    using cell by (simp add: scalar_mul_def tensor.map_sel)
qed

theorem gradient_tape_square_matches_true_gradient_witness:
  "gradient_cell [''x'' \<mapsto> Tensor [2, 2] [1, - 2, 3, 1 / 2]]
     = Inr (Tensor [2, 2] [2, - 4, 6, 1], Tensor [2, 2] [2, - 4, 6, 1], 0)"
proof -
  let ?x = "Tensor [2, 2] [1, - 2, 3, 1 / 2] :: real tensor"
  have h: "[''x'' \<mapsto> ?x] ''x'' = Some ?x" "shape ?x = [2, 2]" "valid ?x"
    by (simp_all add: valid_def)
  have "scalar_mul 2 ?x = Tensor [2, 2] [2, - 4, 6, 1]"
    by (simp add: scalar_mul_def)
  then show ?thesis using gradient_tape_square_matches_true_gradient [of "[''x'' \<mapsto> ?x]" ?x, OF h] by simp
qed

section \<open>Properties of the call order\<close>

text \<open>
  Claim C5, as stated, fails on the training notebook: its calls are not in the order
  construction, compile, fit, evaluate, predict, and it evaluates the model before it
  fits it.
\<close>

theorem training_notebook_evaluates_before_fit:
  "\<not> in_specified_order (model_calls training_notebook)
   \<and> evaluate_before_fit (model_calls training_notebook)"
  by (simp add: in_specified_order_def evaluate_before_fit_def model_calls_def
      training_notebook_def List.map_filter_simps)

text \<open>
  Claim C5, amended. In the training notebook the calls on the model occur in the
  order construction, compile, evaluate, fit, predict, evaluate: construction comes
  first, compile precedes every fit, evaluate and predict, and evaluate is invoked both
  before the fit (on the untrained model) and after it. In the transfer-learning
  notebook, whose training cell is left blank, the calls are construction, summary,
  predict, with construction first.
\<close>

theorem notebook_call_order:
  "model_calls training_notebook = [Sequential, Compile, Evaluate, Fit, Predict, Evaluate]
   \<and> constructed_first (model_calls training_notebook)
   \<and> compiled_before_use (model_calls training_notebook)
   \<and> evaluate_before_fit (model_calls training_notebook)
   \<and> evaluate_after_fit (model_calls training_notebook)
   \<and> model_calls transfer_notebook = [Sequential, Summary, Predict]
   \<and> constructed_first (model_calls transfer_notebook)"
  by (simp add: model_calls_def training_notebook_def transfer_notebook_def
      constructed_first_def compiled_before_use_def evaluate_before_fit_def
      evaluate_after_fit_def)

section \<open>Properties of single-precision rounding\<close>

lemma nearest_even_int [simp]: "nearest_even (of_int n) = n"
  by (simp add: nearest_even_def)

lemma nearest_even_range: "\<lfloor>t\<rfloor> \<le> nearest_even t \<and> nearest_even t \<le> \<lfloor>t\<rfloor> + 1"
  by (simp add: nearest_even_def Let_def)

lemma nearest_even_mono: "s \<le> t \<Longrightarrow> nearest_even s \<le> nearest_even t"
proof -
  assume st: "s \<le> t"
  have fl: "\<lfloor>s\<rfloor> \<le> \<lfloor>t\<rfloor>" using st by (rule floor_mono)
  show ?thesis
  proof (cases "\<lfloor>s\<rfloor> = \<lfloor>t\<rfloor>")
    case True
    then have "s - of_int \<lfloor>s\<rfloor> \<le> t - of_int \<lfloor>t\<rfloor>" using st by simp
    with True show ?thesis
      by (auto simp: nearest_even_def Let_def)
  next
    case False
    with fl have "\<lfloor>s\<rfloor> + 1 \<le> \<lfloor>t\<rfloor>" by simp
    then show ?thesis
      using nearest_even_range [of s] nearest_even_range [of t] by linarith
  qed
qed

lemma powr_scale: "2 powr (x - of_nat n) * 2 ^ n = (2::real) powr x"
proof -
  have "2 powr (x - of_nat n) * 2 powr (of_nat n) = (2::real) powr x"
    by (simp flip: powr_add)
  then show ?thesis by (simp add: powr_realpow)
qed

lemma quantum_pos: "0 < quantum r"
  by (simp add: quantum_def)

lemma log_floor_bounds:
  assumes "0 < r"
  shows "2 powr of_int \<lfloor>log 2 r\<rfloor> \<le> r" and "r < 2 powr (of_int \<lfloor>log 2 r\<rfloor> + 1)"
proof -
  have r: "2 powr (log 2 r) = r" using assms by simp
  have "of_int \<lfloor>log 2 r\<rfloor> \<le> log 2 r" by simp
  then have "2 powr of_int \<lfloor>log 2 r\<rfloor> \<le> 2 powr (log 2 r)"
    by (intro powr_mono) simp_all
  then show "2 powr of_int \<lfloor>log 2 r\<rfloor> \<le> r" using r by simp
  have "log 2 r < of_int \<lfloor>log 2 r\<rfloor> + 1" by linarith
  then have "2 powr (log 2 r) < 2 powr (of_int \<lfloor>log 2 r\<rfloor> + 1)"
    by (intro powr_less_mono) simp_all
  then show "r < 2 powr (of_int \<lfloor>log 2 r\<rfloor> + 1)" using r by simp
qed

lemma rounded_upper:
  assumes "0 < r"
  shows "rounded r \<le> 2 powr (of_int (exponent r) + 1)"
proof -
  have "r < 2 powr (of_int \<lfloor>log 2 r\<rfloor> + 1)" using log_floor_bounds(2) [OF assms] .
  also have "\<dots> \<le> 2 powr (of_int (exponent r) + 1)"
    using assms by (intro powr_mono) (simp_all add: exponent_def)
  finally have "r / quantum r < 2 powr (of_int (exponent r) + 1) / quantum r"
    using quantum_pos [of r] by (simp add: divide_strict_right_mono)
  also have "2 powr (of_int (exponent r) + 1) / quantum r = 2 powr 24"
    by (simp add: quantum_def flip: powr_diff)
  also have "(2::real) powr 24 = of_int (2 ^ 24)"
    by (simp add: powr_numeral)
  finally have "r / quantum r \<le> of_int (2 ^ 24)" by simp
  then have "nearest_even (r / quantum r) \<le> nearest_even (of_int (2 ^ 24))"
    by (rule nearest_even_mono)
  then have "nearest_even (r / quantum r) \<le> 2 ^ 24"
    by (simp only: nearest_even_int)
  then have "(of_int (nearest_even (r / quantum r)) :: real) \<le> of_int (2 ^ 24)"
    by (simp only: of_int_le_iff)
  then have "rounded r \<le> quantum r * of_int (2 ^ 24)"
    unfolding rounded_def using quantum_pos [of r] by (simp only: mult_le_cancel_left_pos)
  also have "quantum r * of_int (2 ^ 24) = 2 powr (of_int (exponent r) + 1)"
    using powr_scale [of "of_int (exponent r) + 1" 24] by (simp add: quantum_def)
  finally show ?thesis .
qed

lemma rounded_lower:
  assumes "0 < r" and "- 126 \<le> \<lfloor>log 2 r\<rfloor>"
  shows "2 powr of_int (exponent r) \<le> rounded r"
proof -
  have e: "exponent r = \<lfloor>log 2 r\<rfloor>" using assms by (simp add: exponent_def)
  have "2 powr of_int (exponent r) \<le> r" using log_floor_bounds(1) [OF assms(1)] e by simp
  then have "2 powr of_int (exponent r) / quantum r \<le> r / quantum r"
    using quantum_pos [of r] by (simp add: divide_right_mono)
  moreover have "2 powr of_int (exponent r) / quantum r = 2 powr 23"
    by (simp add: quantum_def flip: powr_diff)
  moreover have "(2::real) powr 23 = of_int (2 ^ 23)"
    by (simp add: powr_numeral)
  ultimately have "of_int (2 ^ 23) \<le> r / quantum r" by simp
  then have "nearest_even (of_int (2 ^ 23)) \<le> nearest_even (r / quantum r)"
    by (rule nearest_even_mono)
  then have "2 ^ 23 \<le> nearest_even (r / quantum r)"
    by (simp only: nearest_even_int)
  then have "(of_int (2 ^ 23) :: real) \<le> of_int (nearest_even (r / quantum r))"
    by (simp only: of_int_le_iff)
  then have "quantum r * of_int (2 ^ 23) \<le> rounded r"
    unfolding rounded_def using quantum_pos [of r] by (simp only: mult_le_cancel_left_pos)
  moreover have "quantum r * of_int (2 ^ 23) = 2 powr of_int (exponent r)"
    using powr_scale [of "of_int (exponent r)" 23] by (simp add: quantum_def)
  ultimately show ?thesis by simp
qed

lemma rounded_nonneg: "0 < r \<Longrightarrow> 0 \<le> rounded r"
proof -
  assume "0 < r"
  then have "0 \<le> r / quantum r" using quantum_pos [of r] by simp
  then have "nearest_even 0 \<le> nearest_even (r / quantum r)" by (rule nearest_even_mono)
  then have "0 \<le> nearest_even (r / quantum r)" by (simp add: nearest_even_def)
  then show ?thesis unfolding rounded_def using quantum_pos [of r] by simp
qed

lemma exponent_mono: "0 < a \<Longrightarrow> a \<le> b \<Longrightarrow> exponent a \<le> exponent b"
  unfolding exponent_def by (intro max.mono floor_mono) simp_all

lemma rounded_mono:
  assumes "0 < a" "a \<le> b"
  shows "rounded a \<le> rounded b"
proof (cases "exponent a = exponent b")
  case True
  then have q: "quantum a = quantum b" by (simp add: quantum_def)
  have "a / quantum b \<le> b / quantum b"
    using assms quantum_pos [of b] by (simp add: divide_right_mono)
  then have "nearest_even (a / quantum b) \<le> nearest_even (b / quantum b)"
    by (rule nearest_even_mono)
  then show ?thesis
    unfolding rounded_def q using quantum_pos [of b] by simp
next
  case False
  have b: "0 < b" using assms by simp
  from False exponent_mono [OF assms] have lt: "exponent a + 1 \<le> exponent b" by simp
  have "- 126 \<le> exponent a" by (simp add: exponent_def)
  with lt have "- 126 < exponent b" by simp
  then have fl: "- 126 \<le> \<lfloor>log 2 b\<rfloor>" using b by (simp add: exponent_def max_def split: if_splits)
  have "rounded a \<le> 2 powr (of_int (exponent a) + 1)" using rounded_upper [OF assms(1)] .
  also have "\<dots> \<le> 2 powr of_int (exponent b)"
  proof -
    have "real_of_int (exponent a + 1) \<le> real_of_int (exponent b)"
      using lt by (simp only: of_int_le_iff)
    then show ?thesis by (intro powr_mono) simp_all
  qed
  also have "\<dots> \<le> rounded b" using rounded_lower [OF b fl] .
  finally show ?thesis .
qed

lemma round32_pos:
  "0 < r \<Longrightarrow> round32 r = (if 2 ^ 128 \<le> rounded r then PosInf else Finite (rounded r))"
  using rounded_nonneg [of r] by (simp add: round32_def)

lemma exponent_pow2: "- 126 \<le> k \<Longrightarrow> exponent (2 powr of_int k) = k"
  by (simp add: exponent_def)

lemma rounded_pow2:
  assumes "- 126 \<le> k"
  shows "rounded (2 powr of_int k) = 2 powr of_int k"
proof -
  have "2 powr of_int k / quantum (2 powr of_int k) = 2 powr 23"
    using assms by (simp add: quantum_def exponent_pow2 flip: powr_diff)
  also have "(2::real) powr 23 = of_int (2 ^ 23)" by (simp add: powr_numeral)
  finally have "nearest_even (2 powr of_int k / quantum (2 powr of_int k)) = 2 ^ 23"
    by (simp only: nearest_even_int)
  then show ?thesis
    using assms powr_scale [of "of_int k" 23]
    by (simp add: rounded_def quantum_def exponent_pow2)
qed

lemma rounded_one: "rounded 1 = 1"
  using rounded_pow2 [of 0] by simp

lemma round32_one: "round32 1 = Finite 1"
  by (simp add: round32_pos rounded_one)

lemma round32_ge_one:
  assumes "1 \<le> r"
  shows "round32 r = PosInf \<or> (\<exists>d. round32 r = Finite d \<and> 1 \<le> d)"
proof -
  have "rounded 1 \<le> rounded r" using assms by (intro rounded_mono) simp_all
  then have "1 \<le> rounded r" by (simp add: rounded_one)
  then show ?thesis using assms by (simp add: round32_pos)
qed

lemma round32_unit:
  assumes "0 < r" "r \<le> 1"
  shows "\<exists>s. round32 r = Finite s \<and> 0 \<le> s \<and> s \<le> 1"
proof -
  have "rounded r \<le> rounded 1" using assms by (intro rounded_mono)
  then have "rounded r \<le> 1" by (simp add: rounded_one)
  moreover have "0 \<le> rounded r" using assms by (intro rounded_nonneg)
  ultimately show ?thesis using assms by (simp add: round32_pos)
qed

lemma round32_mono:
  assumes "0 < a" "a \<le> b"
  shows "le32 (round32 a) (round32 b)"
proof -
  have "rounded a \<le> rounded b" using assms by (rule rounded_mono)
  then show ?thesis using assms by (simp add: round32_pos)
qed

lemma rounded_near_one:
  assumes "0 \<le> y" "y \<le> 2 powr (- 24)"
  shows "rounded (1 + y) = 1"
proof -
  have y1: "y < 1"
  proof -
    have "(2::real) powr (- 24) < 2 powr 0" by (intro powr_less_mono) simp_all
    then show ?thesis using assms by simp
  qed
  have "0 \<le> log 2 (1 + y)" using assms by simp
  moreover have "log 2 (1 + y) < 1" using assms y1 by (simp add: log_less_iff)
  ultimately have "\<lfloor>log 2 (1 + y)\<rfloor> = 0" by linarith
  then have e: "exponent (1 + y) = 0" using assms by (simp add: exponent_def)
  then have q: "quantum (1 + y) = 2 powr (- 23)" by (simp add: quantum_def)
  have inv: "1 / (2::real) powr (- 23) = 2 ^ 23"
    by (simp add: powr_minus powr_numeral)
  have t: "(1 + y) / quantum (1 + y) = 2 ^ 23 + y * 2 ^ 23"
    unfolding q using inv by (simp add: field_simps)
  have half: "y * 2 ^ 23 \<le> 1 / 2"
  proof -
    have "(2::real) powr (- 24) * 2 ^ 23 = 1 / 2"
      by (simp add: powr_minus powr_numeral)
    moreover have "y * 2 ^ 23 \<le> 2 powr (- 24) * 2 ^ 23"
      using assms by (intro mult_right_mono) simp_all
    ultimately show ?thesis by simp
  qed
  have fl: "\<lfloor>2 ^ 23 + y * 2 ^ 23\<rfloor> = 2 ^ 23"
    using assms half by (intro floor_unique) simp_all
  have "nearest_even (2 ^ 23 + y * 2 ^ 23) = 2 ^ 23"
    unfolding nearest_even_def Let_def fl using half by simp
  then show ?thesis
    unfolding rounded_def t unfolding q using inv by (simp add: field_simps)
qed

section \<open>Properties of the activation function\<close>

lemma sigmoid_activation_data:
  "data (sigmoid_activation fexp x)
     = map (\<lambda>v. div32 (Finite 1) (add32 (Finite 1) (fexp (neg32 v)))) (data x)"
  by (simp add: sigmoid_activation_def scalar_rdiv_def scalar_add_def tf_exp_def
      tf_negative_def tensor.map_sel round32_one comp_def)

lemma sigmoid_activation_shape: "shape (sigmoid_activation fexp x) = shape x"
  by (simp add: sigmoid_activation_def scalar_rdiv_def scalar_add_def tf_exp_def
      tf_negative_def tensor.map_sel)

lemma denominator_cases:
  assumes "exp_value e"
  shows "add32 (Finite 1) e = PosInf \<or> (\<exists>d. add32 (Finite 1) e = Finite d \<and> 1 \<le> d)"
proof (cases e)
  case (Finite y)
  with assms have "1 \<le> 1 + y" by simp
  then show ?thesis using round32_ge_one [of "1 + y"] Finite by simp
qed (use assms in simp_all)

lemma quotient_unit:
  assumes "d = PosInf \<or> (\<exists>r. d = Finite r \<and> 1 \<le> r)"
  shows "in_unit_interval (div32 (Finite 1) d)"
proof -
  from assms show ?thesis
  proof
    assume "d = PosInf"
    then show ?thesis by simp
  next
    assume "\<exists>r. d = Finite r \<and> 1 \<le> r"
    then obtain r where d: "d = Finite r" and r: "1 \<le> r" by blast
    then have "0 < 1 / r" "1 / r \<le> 1" by simp_all
    then obtain s where "round32 (1 / r) = Finite s" "0 \<le> s" "s \<le> 1"
      using round32_unit by blast
    then show ?thesis using d r by simp
  qed
qed

lemma element_unit:
  assumes "exp_value (fexp (neg32 v))"
  shows "in_unit_interval (div32 (Finite 1) (add32 (Finite 1) (fexp (neg32 v))))"
  using quotient_unit [OF denominator_cases [OF assms]] .

lemma denominator_mono:
  assumes "exp_value e" "exp_value e'" "le32 e e'"
  shows "le32 (add32 (Finite 1) e) (add32 (Finite 1) e')"
proof (cases e)
  case e: (Finite y)
  show ?thesis
  proof (cases e')
    case (Finite y')
    with e assms have "0 < 1 + y" "1 + y \<le> 1 + y'" by simp_all
    then show ?thesis using round32_mono e Finite by simp
  next
    case PosInf
    have "round32 (1 + y) \<noteq> NaN"
      using e assms(1) by (simp add: round32_pos)
    with PosInf e show ?thesis by (cases "round32 (1 + y)") simp_all
  qed (use assms in simp_all)
next
  case PosInf
  with assms show ?thesis by (cases e') simp_all
qed (use assms in simp_all)

lemma quotient_antimono:
  assumes d: "d = PosInf \<or> (\<exists>r. d = Finite r \<and> 1 \<le> r)"
    and d': "d' = PosInf \<or> (\<exists>r. d' = Finite r \<and> 1 \<le> r)"
    and le: "le32 d d'"
  shows "le32 (div32 (Finite 1) d') (div32 (Finite 1) d)"
proof -
  have unit: "in_unit_interval (div32 (Finite 1) d)" using quotient_unit [OF d] .
  from d' show ?thesis
  proof
    assume inf: "d' = PosInf"
    from unit show ?thesis
      unfolding inf by (cases "div32 (Finite 1) d") simp_all
  next
    assume "\<exists>r. d' = Finite r \<and> 1 \<le> r"
    then obtain r' where r': "d' = Finite r'" "1 \<le> r'" by blast
    with d le obtain r where r: "d = Finite r" "1 \<le> r" "r \<le> r'" by auto
    then have "0 < 1 / r'" "1 / r' \<le> 1 / r" using r' by (simp_all add: frac_le)
    then have "le32 (round32 (1 / r')) (round32 (1 / r))" by (rule round32_mono)
    then show ?thesis using r r' by simp
  qed
qed

text \<open>
  Claim C8, amended. On \<^verbatim>\<open>float32\<close> tensors \<open>sigmoid_activation\<close> computes
  \<open>1 / (1 + exp (- x))\<close> at every element with each result rounded, and keeps the
  shape. When the framework's exponential returns a value that is not negative or
  \<open>+inf\<close>, and is non-decreasing, every output for a finite input is a finite value in
  the closed interval \<open>[0, 1]\<close>, and the function is non-decreasing: when every element
  of \<open>a\<close> is at most the element of \<open>b\<close> at the same position, the same holds of the
  outputs. Both bounds are reached, so neither inequality is strict.
\<close>

theorem sigmoid_activation_float32_bounded_nondecreasing:
  assumes exp_range: "\<And>r. exp_value (fexp (Finite r))"
    and exp_mono: "\<And>r s. r \<le> s \<Longrightarrow> le32 (fexp (Finite r)) (fexp (Finite s))"
  shows "data (sigmoid_activation fexp x)
           = map (\<lambda>v. div32 (Finite 1) (add32 (Finite 1) (fexp (neg32 v)))) (data x)
       \<and> (list_all is_finite (data x)
           \<longrightarrow> list_all in_unit_interval (data (sigmoid_activation fexp x)))
       \<and> shape (sigmoid_activation fexp x) = shape x
       \<and> (list_all2 finite_le (data a) (data b)
           \<longrightarrow> list_all2 le32 (data (sigmoid_activation fexp a))
                 (data (sigmoid_activation fexp b)))"
proof -
  let ?s = "\<lambda>v. div32 (Finite 1) (add32 (Finite 1) (fexp (neg32 v)))"
  have unit: "in_unit_interval (?s v)" if "is_finite v" for v
  proof -
    from that obtain r where "v = Finite r" by (cases v) simp_all
    then have "exp_value (fexp (neg32 v))" using exp_range by simp
    then show ?thesis by (rule element_unit)
  qed
  have mono: "le32 (?s u) (?s v)" if "finite_le u v" for u v
  proof -
    from that obtain p q where uv: "u = Finite p" "v = Finite q" "p \<le> q"
      by (cases u; cases v) simp_all
    have eu: "exp_value (fexp (Finite (- p)))" and ev: "exp_value (fexp (Finite (- q)))"
      using exp_range by simp_all
    have "le32 (fexp (Finite (- q))) (fexp (Finite (- p)))"
      using uv by (intro exp_mono) simp
    then have "le32 (add32 (Finite 1) (fexp (Finite (- q)))) (add32 (Finite 1) (fexp (Finite (- p))))"
      using ev eu by (intro denominator_mono)
    then have "le32 (div32 (Finite 1) (add32 (Finite 1) (fexp (Finite (- p)))))
        (div32 (Finite 1) (add32 (Finite 1) (fexp (Finite (- q)))))"
      using denominator_cases [OF eu] denominator_cases [OF ev]
      by (intro quotient_antimono)
    then show ?thesis using uv by simp
  qed
  have bounds: "list_all in_unit_interval (data (sigmoid_activation fexp x))"
    if "list_all is_finite (data x)"
    using that unit by (simp add: sigmoid_activation_data list_all_iff)
  have order: "list_all2 le32 (data (sigmoid_activation fexp a)) (data (sigmoid_activation fexp b))"
    if "list_all2 finite_le (data a) (data b)"
    using that mono
    by (simp add: sigmoid_activation_data list_all2_map1 list_all2_map2 list_all2_mono)
  show ?thesis using bounds order sigmoid_activation_shape sigmoid_activation_data by blast
qed

lemma exp_nearest_value: "exp_value (exp_nearest (Finite r))"
  using rounded_nonneg [of "exp r"] by (simp add: exp_nearest_def round32_pos)

lemma exp_nearest_mono: "r \<le> s \<Longrightarrow> le32 (exp_nearest (Finite r)) (exp_nearest (Finite s))"
  using round32_mono [of "exp r" "exp s"] by (simp add: exp_nearest_def)

theorem sigmoid_activation_float32_bounded_nondecreasing_witness:
  "list_all is_finite (data (Tensor [2] [Finite 0, Finite 17]))
   \<and> list_all in_unit_interval
       (data (sigmoid_activation exp_nearest (Tensor [2] [Finite 0, Finite 17])))
   \<and> list_all2 finite_le (data (Tensor [2] [Finite 0, Finite 17]))
       (data (Tensor [2] [Finite 1, Finite 18]))
   \<and> list_all2 le32 (data (sigmoid_activation exp_nearest (Tensor [2] [Finite 0, Finite 17])))
       (data (sigmoid_activation exp_nearest (Tensor [2] [Finite 1, Finite 18])))"
proof -
  let ?a = "Tensor [2] [Finite 0, Finite 17]"
  let ?b = "Tensor [2] [Finite 1, Finite 18]"
  have fin: "list_all is_finite (data ?a)" by simp
  have le: "list_all2 finite_le (data ?a) (data ?b)" by simp
  note t = sigmoid_activation_float32_bounded_nondecreasing [of exp_nearest ?a ?a ?b, OF exp_nearest_value exp_nearest_mono]
  show ?thesis using fin le t by blast
qed

lemma exp_17_lower: "2 ^ 24 \<le> exp (17::real)"
proof -
  have "(41 / 32 :: real) \<le> exp (1 / 4)"
    using exp_lower_Taylor_quadratic [of "1 / 4 :: real"] by (simp add: power2_eq_square)
  then have "(41 / 32 :: real) ^ 68 \<le> exp (1 / 4) ^ 68"
    by (intro power_mono) simp_all
  moreover have "exp (1 / 4 :: real) ^ 68 = exp 17"
    by (simp flip: exp_of_nat_mult)
  moreover have "(2 ^ 24 :: real) \<le> (41 / 32) ^ 68"
    by (simp add: power_divide)
  ultimately show ?thesis by linarith
qed

lemma exp_100_lower: "2 ^ 128 \<le> exp (100::real)"
proof -
  have "(5 / 2 :: real) \<le> exp 1"
    using exp_lower_Taylor_quadratic [of "1 :: real"] by simp
  then have "(5 / 2 :: real) ^ 100 \<le> exp 1 ^ 100"
    by (intro power_mono) simp_all
  moreover have "exp (1 :: real) ^ 100 = exp 100"
    by (simp flip: exp_of_nat_mult)
  moreover have "(2 ^ 128 :: real) \<le> (5 / 2) ^ 100"
    by (simp add: power_divide)
  ultimately show ?thesis by linarith
qed

lemma exp_small:
  assumes "17 \<le> (x::real)"
  shows "exp (- x) \<le> 2 powr (- 24)"
proof -
  have "exp (- x) \<le> exp (- 17)" using assms by simp
  also have "exp (- 17 :: real) = 1 / exp 17" by (simp add: exp_minus field_simps)
  also have "\<dots> \<le> 1 / 2 ^ 24" using exp_17_lower by (intro divide_left_mono) simp_all
  also have "(1 / 2 ^ 24 :: real) = 2 powr (- 24)" by (simp add: powr_minus powr_numeral field_simps)
  finally show ?thesis .
qed

lemma saturates_at_one:
  assumes "17 \<le> x"
  shows "div32 (Finite 1) (add32 (Finite 1) (exp_nearest (neg32 (Finite x)))) = Finite 1"
proof -
  let ?y = "rounded (exp (- x))"
  have "?y \<le> rounded (2 powr of_int (- 24))"
    using exp_small [OF assms] by (intro rounded_mono) simp_all
  then have up: "?y \<le> 2 powr (- 24)"
    using rounded_pow2 [of "- 24"] by simp
  have lo: "0 \<le> ?y" by (intro rounded_nonneg) simp
  have "(2::real) powr (- 24) < 2 ^ 128"
  proof -
    have "(2::real) powr (- 24) \<le> 2 powr 0" by (intro powr_mono) simp_all
    then show ?thesis by simp
  qed
  with up have "\<not> 2 ^ 128 \<le> ?y" by simp
  then have e: "exp_nearest (Finite (- x)) = Finite ?y"
    by (simp add: exp_nearest_def round32_pos)
  have "rounded (1 + ?y) = 1" using lo up by (rule rounded_near_one)
  moreover have "0 < 1 + ?y" using lo by simp
  ultimately have "add32 (Finite 1) (Finite ?y) = Finite 1"
    by (simp add: round32_pos)
  then show ?thesis by (simp add: e round32_one)
qed

lemma saturates_at_zero:
  assumes "x \<le> - 100"
  shows "div32 (Finite 1) (add32 (Finite 1) (exp_nearest (neg32 (Finite x)))) = Finite 0"
proof -
  have "2 ^ 128 \<le> exp (100::real)" by (rule exp_100_lower)
  also have "\<dots> \<le> exp (- x)" using assms by simp
  finally have big: "2 ^ 128 \<le> exp (- x)" .
  have "(2::real) powr of_int 128 = 2 ^ 128" by (simp add: powr_numeral)
  then have "rounded (2 ^ 128) = 2 ^ 128" using rounded_pow2 [of 128] by simp
  moreover have "rounded (2 ^ 128) \<le> rounded (exp (- x))"
    using big by (intro rounded_mono) simp_all
  ultimately have "2 ^ 128 \<le> rounded (exp (- x))" by simp
  then have "exp_nearest (neg32 (Finite x)) = PosInf"
    by (simp add: exp_nearest_def round32_pos)
  then show ?thesis by simp
qed

text \<open>
  Claim C8, as stated, fails in \<^verbatim>\<open>float32\<close>: the output is exactly 0 at \<open>x = -100\<close>, where
  \<open>exp (- x)\<close> overflows, and exactly 1 at \<open>x = 17\<close> and at \<open>x = 18\<close>, where
  \<open>1 + exp (- x)\<close> rounds to 1. It is not strictly between 0 and 1 and not strictly
  increasing.
\<close>

theorem sigmoid_activation_saturates_in_float32:
  "data (sigmoid_activation exp_nearest (Tensor [3] [Finite (- 100), Finite 17, Finite 18]))
     = [Finite 0, Finite 1, Finite 1]"
  using saturates_at_zero [of "- 100"] saturates_at_one [of 17] saturates_at_one [of 18]
  by (simp add: sigmoid_activation_data)

end
